theory Spec2Isabelle
  imports Complex_Main "HOL-Library.Multiset"
begin

section \<open>Data model\<close>

text \<open>
  Modelled from the spec: the declarations of \<open>types.ts\<close> (\<open>BuildingType\<close>,
  \<open>BuildingConfig\<close>, \<open>TileData\<close>, \<open>Grid\<close>) are imported by both source
  files but are not among them. The enumeration is the closed set of section 3 of the
  specification, which is also the key set of \<open>BUILDINGS\<close> in \<open>constants.tsx\<close>; the
  variant \<open>None\<close> is written \<open>BNone\<close> here, since \<open>None\<close> is the empty option.
\<close>

datatype BuildingType =
  BNone | Road | Residential | Commercial | Industrial
  | Park | Restaurant | Hotel | Hospital | Airport

text \<open>
  Modelled from the spec: the record of one catalog entry, with the fields that every
  entry of \<open>BUILDINGS\<close> sets; the field \<open>type\<close> is written \<open>btype\<close>.
\<close>

record BuildingConfig =
  btype :: BuildingType
  cost :: int
  name :: string
  description :: string
  color :: string
  popGen :: int
  incomeGen :: int

text \<open>
  Modelled from the spec: a tile holds a building type and an optional construction
  countdown (\<open>constructionTimeLeft\<close> absent is \<open>None\<close>). A grid is an array of rows,
  addressed \<open>grid[row][column]\<close>.
\<close>

record TileData =
  buildingType :: BuildingType
  constructionTimeLeft :: "int option"

type_synonym Grid = "TileData list list"

section \<open>constants.tsx\<close>

definition GRID_SIZE :: nat where
  "GRID_SIZE = 15"

definition INITIAL_MONEY :: int where
  "INITIAL_MONEY = 1000"

fun BUILDINGS :: "BuildingType \<Rightarrow> BuildingConfig" where
  "BUILDINGS BNone = \<lparr>btype = BNone, cost = 0, name = ''Bulldoze'',
     description = ''Clear a tile'', color = ''#ef4444'', popGen = 0, incomeGen = 0\<rparr>"
| "BUILDINGS Road = \<lparr>btype = Road, cost = 10, name = ''Road'',
     description = ''Connects buildings.'', color = ''#374151'', popGen = 0, incomeGen = 0\<rparr>"
| "BUILDINGS Residential = \<lparr>btype = Residential, cost = 100, name = ''House'',
     description = ''+5 Pop/day'', color = ''#f87171'', popGen = 5, incomeGen = 0\<rparr>"
| "BUILDINGS Commercial = \<lparr>btype = Commercial, cost = 200, name = ''Shop'',
     description = ''+$15/day'', color = ''#60a5fa'', popGen = 0, incomeGen = 15\<rparr>"
| "BUILDINGS Industrial = \<lparr>btype = Industrial, cost = 400, name = ''Factory'',
     description = ''+$40/day'', color = ''#facc15'', popGen = 0, incomeGen = 40\<rparr>"
| "BUILDINGS Park = \<lparr>btype = Park, cost = 50, name = ''Park'',
     description = ''Looks nice.'', color = ''#4ade80'', popGen = 1, incomeGen = 0\<rparr>"
| "BUILDINGS Restaurant = \<lparr>btype = Restaurant, cost = 150, name = ''Diner'',
     description = ''+$25/day'', color = ''#fb923c'', popGen = 0, incomeGen = 25\<rparr>"
| "BUILDINGS Hotel = \<lparr>btype = Hotel, cost = 300, name = ''Hotel'',
     description = ''+$35/day'', color = ''#a78bfa'', popGen = 0, incomeGen = 35\<rparr>"
| "BUILDINGS Hospital = \<lparr>btype = Hospital, cost = 600, name = ''Hospital'',
     description = ''+10 Pop/day, Costs $20/day'', color = ''#f43f5e'', popGen = 10,
     incomeGen = - 20\<rparr>"
| "BUILDINGS Airport = \<lparr>btype = Airport, cost = 2000, name = ''Airport'',
     description = ''Unique. +$120/day. Planes!'', color = ''#0ea5e9'', popGen = 15,
     incomeGen = 120\<rparr>"

section \<open>JavaScript primitives used by the renderer\<close>

text \<open>
  A number is a finite value, one of the two infinities, or \<open>NaN\<close>. Finite arithmetic
  is idealised: a finite result is the exact real, its rounding to a double is not
  modelled. Overflow is modelled: a result whose magnitude reaches \<open>2^1024 - 2^970\<close>
  (half a unit in the last place above the largest double) is an infinity.
\<close>

datatype number = Num real | PosInf | NegInf | NaN

definition overflowBound :: real where
  "overflowBound = 2 ^ 1024 - 2 ^ 970"

definition js_num :: "real \<Rightarrow> number" where
  "js_num r =
     (if overflowBound \<le> r then PosInf
      else if r \<le> - overflowBound then NegInf
      else Num r)"

text \<open>An integer argument, as the number that holds it.\<close>

definition js_int :: "int \<Rightarrow> number" where
  "js_int i = js_num (of_int i)"

text \<open>\<open>a * b\<close>: infinity times zero is \<open>NaN\<close>, \<open>NaN\<close> is absorbing.\<close>

fun js_mul :: "number \<Rightarrow> number \<Rightarrow> number" where
  "js_mul (Num a) (Num b) = js_num (a * b)"
| "js_mul NaN b = NaN"
| "js_mul a NaN = NaN"
| "js_mul PosInf (Num b) = (if b = 0 then NaN else if 0 < b then PosInf else NegInf)"
| "js_mul NegInf (Num b) = (if b = 0 then NaN else if 0 < b then NegInf else PosInf)"
| "js_mul (Num a) PosInf = (if a = 0 then NaN else if 0 < a then PosInf else NegInf)"
| "js_mul (Num a) NegInf = (if a = 0 then NaN else if 0 < a then NegInf else PosInf)"
| "js_mul PosInf PosInf = PosInf"
| "js_mul PosInf NegInf = NegInf"
| "js_mul NegInf PosInf = NegInf"
| "js_mul NegInf NegInf = PosInf"

text \<open>\<open>a + b\<close>: the sum of opposite infinities is \<open>NaN\<close>.\<close>

fun js_add :: "number \<Rightarrow> number \<Rightarrow> number" where
  "js_add (Num a) (Num b) = js_num (a + b)"
| "js_add NaN b = NaN"
| "js_add a NaN = NaN"
| "js_add PosInf NegInf = NaN"
| "js_add NegInf PosInf = NaN"
| "js_add PosInf b = PosInf"
| "js_add NegInf b = NegInf"
| "js_add a PosInf = PosInf"
| "js_add a NegInf = NegInf"

text \<open>\<open>Math.sin\<close>: the sine of an infinity or of \<open>NaN\<close> is \<open>NaN\<close>.\<close>

fun js_sin :: "number \<Rightarrow> number" where
  "js_sin (Num a) = Num (sin a)"
| "js_sin a = NaN"

text \<open>\<open>Math.abs\<close>.\<close>

fun js_abs :: "number \<Rightarrow> number" where
  "js_abs (Num a) = Num \<bar>a\<bar>"
| "js_abs PosInf = PosInf"
| "js_abs NegInf = PosInf"
| "js_abs NaN = NaN"

text \<open>
  \<open>a % b\<close> truncates the quotient towards zero, so the remainder has the sign of the
  dividend. It is \<open>NaN\<close> when the dividend is not finite, when the divisor is zero and
  when either is \<open>NaN\<close>; a finite dividend is unchanged by an infinite divisor.
\<close>

definition js_trunc :: "real \<Rightarrow> int" where
  "js_trunc r = (if 0 \<le> r then \<lfloor>r\<rfloor> else \<lceil>r\<rceil>)"

fun js_rem :: "number \<Rightarrow> number \<Rightarrow> number" where
  "js_rem (Num a) (Num b) =
     (if b = 0 then NaN else Num (a - b * of_int (js_trunc (a / b))))"
| "js_rem (Num a) PosInf = Num a"
| "js_rem (Num a) NegInf = Num a"
| "js_rem a b = NaN"

text \<open>\<open>Math.floor\<close>: an infinity and \<open>NaN\<close> are returned as they are.\<close>

fun js_floor :: "number \<Rightarrow> number" where
  "js_floor (Num a) = Num (of_int \<lfloor>a\<rfloor>)"
| "js_floor a = a"

text \<open>\<open>a < b\<close> and \<open>a > b\<close>: every comparison with \<open>NaN\<close> is false.\<close>

fun js_lt :: "number \<Rightarrow> number \<Rightarrow> bool" where
  "js_lt (Num a) (Num b) = (a < b)"
| "js_lt NaN b = False"
| "js_lt a NaN = False"
| "js_lt NegInf NegInf = False"
| "js_lt NegInf b = True"
| "js_lt a NegInf = False"
| "js_lt PosInf b = False"
| "js_lt a PosInf = True"

definition js_gt :: "number \<Rightarrow> number \<Rightarrow> bool" where
  "js_gt a b = js_lt b a"

text \<open>
  Reading \<open>xs[i]\<close> at an integer index gives \<open>undefined\<close> (here \<open>None\<close>) outside
  the array; reading a property of \<open>undefined\<close> throws a \<open>TypeError\<close>.
\<close>

datatype error = TypeError

definition js_index :: "'a list \<Rightarrow> int \<Rightarrow> 'a option" where
  "js_index xs i = (if 0 \<le> i \<and> i < int (length xs) then Some (xs ! nat i) else None)"

text \<open>
  Reading \<open>xs[n]\<close> at a number: an element only when the number is a whole finite
  value inside the array, \<open>undefined\<close> otherwise (also for \<open>NaN\<close>).
\<close>

definition js_index_num :: "'a list \<Rightarrow> number \<Rightarrow> 'a option" where
  "js_index_num xs n =
     (case n of
        Num r \<Rightarrow> if of_int \<lfloor>r\<rfloor> = r then js_index xs \<lfloor>r\<rfloor> else None
      | _ \<Rightarrow> None)"

definition bindE :: "error + 'a \<Rightarrow> ('a \<Rightarrow> error + 'b) \<Rightarrow> error + 'b" where
  "bindE m f = (case m of Inl e \<Rightarrow> Inl e | Inr v \<Rightarrow> f v)"

text \<open>\<open>a || b\<close> on booleans: \<open>b\<close> is evaluated only when \<open>a\<close> is false.\<close>

definition orE :: "error + bool \<Rightarrow> error + bool \<Rightarrow> error + bool" where
  "orE a b = bindE a (\<lambda>v. if v then Inr True else b)"

section \<open>The renderer: hash and agents\<close>

text \<open>\<open>getHash\<close>: the deterministic pseudo-random value of a coordinate.\<close>

definition getHash :: "int \<Rightarrow> int \<Rightarrow> number" where
  "getHash x y =
     js_rem
       (js_abs (js_mul
          (js_sin (js_add (js_mul (js_int x) (Num 12.9898)) (js_mul (js_int y) (Num 78.233))))
          (Num 43758.5453)))
       (Num 1)"

datatype Axis = AxisX | AxisZ

text \<open>
  What a tile shows: the components the map instantiates, with their props. The colour
  of a car is the result of an array read, so it may be \<open>undefined\<close> (\<open>None\<close>).
\<close>

datatype Agent =
  TrafficLight
  | Car Axis number "string option"
  | Person number
  | ConstructionSite int
  | ProceduralBuilding BuildingType string int int

text \<open>\<open>Car\<close>: the car type chosen from the seed, and the variant branches it renders.\<close>

definition carType :: "number \<Rightarrow> number" where
  "carType seed = js_floor (js_rem (js_mul seed (Num 100)) (Num 4))"

datatype CarVariant = Sedan | Sports | Truck | Van

definition carBody :: "number \<Rightarrow> CarVariant list" where
  "carBody seed =
     (if carType seed = Num 0 then [Sedan] else [])
     @ (if carType seed = Num 1 then [Sports] else [])
     @ (if carType seed = Num 2 then [Truck] else [])
     @ (if carType seed = Num 3 then [Van] else [])"



section \<open>The renderer: road topology\<close>

definition isRoad :: "Grid \<Rightarrow> int \<Rightarrow> int \<Rightarrow> error + bool" where
  "isRoad grid r c =
     (if r < 0 \<or> r \<ge> int (length grid) \<or> c < 0 then Inr False
      else case js_index grid 0 of
        None \<Rightarrow> Inl TypeError
      | Some row0 \<Rightarrow>
          if c \<ge> int (length row0) then Inr False
          else (case js_index grid r of
            None \<Rightarrow> Inl TypeError
          | Some row \<Rightarrow>
              (case js_index row c of
                None \<Rightarrow> Inl TypeError
              | Some tile \<Rightarrow> Inr (buildingType tile = Road))))"

definition getRoadAxis :: "Grid \<Rightarrow> int \<Rightarrow> int \<Rightarrow> error + Axis" where
  "getRoadAxis grid x y =
     bindE (orE (isRoad grid y (x - 1)) (isRoad grid y (x + 1))) (\<lambda>h.
     bindE (orE (isRoad grid (y - 1) x) (isRoad grid (y + 1) x)) (\<lambda>v.
     if v \<and> \<not> h then Inr AxisZ else Inr AxisX))"

text \<open>
  The body of the map over the tiles of \<open>IsoMap\<close>, for the tile \<open>tile\<close> met at column
  \<open>x\<close> of row \<open>y\<close>: the count of road neighbours and the intersection flag.
\<close>

definition neighbors :: "Grid \<Rightarrow> int \<Rightarrow> int \<Rightarrow> error + nat" where
  "neighbors grid x y =
     bindE (isRoad grid y (x - 1)) (\<lambda>a.
     bindE (isRoad grid y (x + 1)) (\<lambda>b.
     bindE (isRoad grid (y - 1) x) (\<lambda>c.
     bindE (isRoad grid (y + 1) x) (\<lambda>d.
     Inr ((if a then 1 else 0) + (if b then 1 else 0)
          + (if c then 1 else 0) + (if d then 1 else 0))))))"

definition isIntersection :: "Grid \<Rightarrow> TileData \<Rightarrow> int \<Rightarrow> int \<Rightarrow> error + bool" where
  "isIntersection grid tile x y =
     (if buildingType tile = Road
      then bindE (neighbors grid x y) (\<lambda>n. Inr (n \<ge> 3))
      else Inr False)"

definition carColors :: "string list" where
  "carColors = [''#ef4444'', ''#3b82f6'', ''#eab308'', ''#22c55e'', ''#a855f7'',
     ''#ffffff'', ''#1f2937'', ''#94a3b8'', ''#fb923c'', ''#06b6d4'']"

text \<open>The "Road Content" fragment of a tile.\<close>

definition roadContent :: "Grid \<Rightarrow> TileData \<Rightarrow> int \<Rightarrow> int \<Rightarrow> error + Agent list" where
  "roadContent grid tile x y =
     (let hash = getHash x y in
      bindE (isIntersection grid tile x y) (\<lambda>inter.
      if buildingType tile = Road then
        bindE (if inter then Inr [TrafficLight]
               else if js_gt hash (Num 0.4) then
                 bindE (getRoadAxis grid x y) (\<lambda>ax.
                   Inr [Car ax hash
                          (js_index_num carColors (js_floor (js_mul hash (Num 10))))])
               else Inr []) (\<lambda>traffic.
        Inr (traffic @ (if js_lt hash (Num 0.2) then [Person hash] else [])))
      else Inr []))"

text \<open>
  The "Building" fragment of a tile. \<open>t && t > 0\<close> on an optional number is false when
  the number is absent or \<open>0\<close>.
\<close>

definition buildingContent :: "TileData \<Rightarrow> int \<Rightarrow> int \<Rightarrow> Agent list" where
  "buildingContent tile x y =
     (let hash = getHash x y;
          finished =
            [ProceduralBuilding (buildingType tile)
               (color (BUILDINGS (buildingType tile))) x y]
            @ (if js_gt hash (Num 0.7) \<and> (buildingType tile = Commercial
                   \<or> buildingType tile = Park \<or> buildingType tile = Restaurant)
               then [Person (js_mul hash (Num 2))] else [])
      in if buildingType tile \<noteq> BNone \<and> buildingType tile \<noteq> Road then
           (case constructionTimeLeft tile of
              None \<Rightarrow> finished
            | Some t \<Rightarrow> if t \<noteq> 0 \<and> t > 0 then [ConstructionSite t] else finished)
         else [])"

text \<open>Everything the map places on one tile.\<close>

definition tileContent :: "Grid \<Rightarrow> TileData \<Rightarrow> int \<Rightarrow> int \<Rightarrow> error + Agent list" where
  "tileContent grid tile x y =
     bindE (roadContent grid tile x y) (\<lambda>road. Inr (road @ buildingContent tile x y))"

text \<open>
  The map over the grid: row \<open>y\<close>, column \<open>x\<close>, with the tile found there.
\<close>

definition IsoMap :: "Grid \<Rightarrow> (error + Agent list) list list" where
  "IsoMap grid =
     map (\<lambda>(y, row). map (\<lambda>(x, tile). tileContent grid tile (int x) (int y))
                          (enumerate 0 row))
         (enumerate 0 grid)"

section \<open>The tick of the economy\<close>

text \<open>
  Modelled from the spec: the tick engine (section 4.5 of the specification) lives in the
  application module, which is not among the source files. One tick first counts every
  running construction timer down by one and clears a timer that reaches \<open>0\<close>, then sums
  \<open>incomeGen\<close> and \<open>popGen\<close> over the tiles whose building is active (timer absent or
  \<open>0\<close>), then adds the income to the treasury and replaces the population.
\<close>

definition countdown :: "TileData \<Rightarrow> TileData" where
  "countdown tile =
     (case constructionTimeLeft tile of
        None \<Rightarrow> tile
      | Some t \<Rightarrow>
          if t > 0
          then (if t - 1 = 0 then tile\<lparr>constructionTimeLeft := None\<rparr>
                else tile\<lparr>constructionTimeLeft := Some (t - 1)\<rparr>)
          else tile)"

text \<open>
  Modelled from the spec: a building is active when its timer is absent or not positive.
\<close>

definition active :: "TileData \<Rightarrow> bool" where
  "active tile = (case constructionTimeLeft tile of None \<Rightarrow> True | Some t \<Rightarrow> \<not> t > 0)"

text \<open>
  Modelled from the spec: what one tile adds to the income and to the population of a
  tick; a tile under construction adds nothing.
\<close>

definition tileIncome :: "TileData \<Rightarrow> int" where
  "tileIncome tile = (if active tile then incomeGen (BUILDINGS (buildingType tile)) else 0)"

definition tilePop :: "TileData \<Rightarrow> int" where
  "tilePop tile = (if active tile then popGen (BUILDINGS (buildingType tile)) else 0)"

text \<open>Modelled from the spec: the sums of step 2 of the tick, over all tiles.\<close>

definition totalIncome :: "Grid \<Rightarrow> int" where
  "totalIncome grid = sum_list (map tileIncome (concat grid))"

definition totalPop :: "Grid \<Rightarrow> int" where
  "totalPop grid = sum_list (map tilePop (concat grid))"

text \<open>
  Modelled from the spec: the tick itself, in the order count down, aggregate, apply; the
  result carries the new grid, the income of the tick, the new treasury and the new
  population.
\<close>

record TickResult =
  newGrid :: Grid
  tickIncome :: int
  newTreasury :: int
  newPopulation :: int

definition tick :: "Grid \<Rightarrow> int \<Rightarrow> TickResult" where
  "tick grid treasury =
     (let g = map (map countdown) grid;
          income = totalIncome g;
          pop = totalPop g
      in \<lparr>newGrid = g, tickIncome = income, newTreasury = treasury + income,
          newPopulation = pop\<rparr>)"

section \<open>Placement\<close>

text \<open>
  Modelled from the spec: the errors of a placement (sections 4.4 and 7 of the
  specification); the placement engine lives in the application module, which is not
  among the source files.
\<close>

datatype PlacementError = OutOfBounds | InsufficientFunds | TileOccupied | DuplicateUnique

text \<open>Modelled from the spec: \<open>set(x, y, Tile)\<close>, the tile of row \<open>y\<close>, column \<open>x\<close>.\<close>

definition setTile :: "Grid \<Rightarrow> int \<Rightarrow> int \<Rightarrow> TileData \<Rightarrow> Grid" where
  "setTile grid x y tile = grid[nat y := (grid ! nat y)[nat x := tile]]"

text \<open>
  Modelled from the spec: \<open>place(grid, treasury, x, y, tool)\<close>. The target must be in
  the grid. The tool \<open>None\<close> bulldozes: always allowed, no charge, the tile becomes empty
  with no timer. Any other tool builds: it fails when the treasury is below the cost of
  the tool in the catalog and when the tile is not empty; on success the cost is debited,
  a road is complete at once and any other building starts its construction timer. The
  specification names the length of that timer (\<open>INITIAL_CONSTRUCTION_TICKS\<close>) without a
  value and leaves the uniqueness of the airport as a policy flag: both are parameters.
\<close>

definition place ::
  "int \<Rightarrow> bool \<Rightarrow> Grid \<Rightarrow> int \<Rightarrow> int \<Rightarrow> int \<Rightarrow> BuildingType
     \<Rightarrow> PlacementError + Grid \<times> int" where
  "place ticks uniqueAirport grid treasury x y tool =
     (if \<not> (0 \<le> y \<and> y < int (length grid) \<and> 0 \<le> x \<and> x < int (length (grid ! nat y)))
      then Inl OutOfBounds
      else if tool = BNone
      then Inr (setTile grid x y \<lparr>buildingType = BNone, constructionTimeLeft = None\<rparr>,
                treasury)
      else if treasury < cost (BUILDINGS tool) then Inl InsufficientFunds
      else if buildingType (grid ! nat y ! nat x) \<noteq> BNone then Inl TileOccupied
      else if uniqueAirport \<and> tool = Airport
              \<and> list_ex (\<lambda>t. buildingType t = Airport) (concat grid)
      then Inl DuplicateUnique
      else Inr (setTile grid x y
                  (if tool = Road
                   then \<lparr>buildingType = Road, constructionTimeLeft = None\<rparr>
                   else \<lparr>buildingType = tool, constructionTimeLeft = Some ticks\<rparr>),
                treasury - cost (BUILDINGS tool)))"

section \<open>The catalog as a parameter\<close>

text \<open>
  The tick and the map read the catalog. To state which fields of the catalog they
  depend on, each is repeated here with the catalog as an argument; with \<open>BUILDINGS\<close>
  for the catalog it is the operation defined above.
\<close>

definition tileIncomeWith :: "(BuildingType \<Rightarrow> BuildingConfig) \<Rightarrow> TileData \<Rightarrow> int" where
  "tileIncomeWith cat tile = (if active tile then incomeGen (cat (buildingType tile)) else 0)"

definition tilePopWith :: "(BuildingType \<Rightarrow> BuildingConfig) \<Rightarrow> TileData \<Rightarrow> int" where
  "tilePopWith cat tile = (if active tile then popGen (cat (buildingType tile)) else 0)"

definition tickWith :: "(BuildingType \<Rightarrow> BuildingConfig) \<Rightarrow> Grid \<Rightarrow> int \<Rightarrow> TickResult" where
  "tickWith cat grid treasury =
     (let g = map (map countdown) grid;
          income = sum_list (map (tileIncomeWith cat) (concat g));
          pop = sum_list (map (tilePopWith cat) (concat g))
      in \<lparr>newGrid = g, tickIncome = income, newTreasury = treasury + income,
          newPopulation = pop\<rparr>)"

definition buildingContentWith ::
  "(BuildingType \<Rightarrow> BuildingConfig) \<Rightarrow> TileData \<Rightarrow> int \<Rightarrow> int \<Rightarrow> Agent list" where
  "buildingContentWith cat tile x y =
     (let hash = getHash x y;
          finished =
            [ProceduralBuilding (buildingType tile) (color (cat (buildingType tile))) x y]
            @ (if js_gt hash (Num 0.7) \<and> (buildingType tile = Commercial
                   \<or> buildingType tile = Park \<or> buildingType tile = Restaurant)
               then [Person (js_mul hash (Num 2))] else [])
      in if buildingType tile \<noteq> BNone \<and> buildingType tile \<noteq> Road then
           (case constructionTimeLeft tile of
              None \<Rightarrow> finished
            | Some t \<Rightarrow> if t \<noteq> 0 \<and> t > 0 then [ConstructionSite t] else finished)
         else [])"

definition IsoMapWith ::
  "(BuildingType \<Rightarrow> BuildingConfig) \<Rightarrow> Grid \<Rightarrow> (error + Agent list) list list" where
  "IsoMapWith cat grid =
     map (\<lambda>(y, row). map (\<lambda>(x, tile).
            bindE (roadContent grid tile (int x) (int y)) (\<lambda>road.
              Inr (road @ buildingContentWith cat tile (int x) (int y))))
          (enumerate 0 row))
         (enumerate 0 grid)"

text \<open>The catalog with every cost replaced: entry \<open>t\<close> costs \<open>c t\<close>.\<close>

definition repriced :: "(BuildingType \<Rightarrow> int) \<Rightarrow> BuildingType \<Rightarrow> BuildingConfig" where
  "repriced c t = (BUILDINGS t)\<lparr>cost := c t\<rparr>"

section \<open>Reference notions of the specification\<close>

text \<open>
  A grid is rectangular when all its rows have the length of the first one (the grid of
  the data model is \<open>GRID_SIZE\<close> by \<open>GRID_SIZE\<close>).
\<close>

definition rectangular :: "Grid \<Rightarrow> bool" where
  "rectangular grid =
     (case grid of [] \<Rightarrow> True | row0 # rows \<Rightarrow> list_all (\<lambda>row. length row = length row0) rows)"

text \<open>
  In the words of the specification: the tile at (row, column) is a road; a coordinate
  outside the grid is not a road.
\<close>

definition inBounds :: "Grid \<Rightarrow> int \<Rightarrow> int \<Rightarrow> bool" where
  "inBounds grid r c =
     (0 \<le> r \<and> r < int (length grid) \<and> 0 \<le> c \<and> c < int (length (grid ! nat r)))"

definition roadAt :: "Grid \<Rightarrow> int \<Rightarrow> int \<Rightarrow> bool" where
  "roadAt grid r c = (inBounds grid r c \<and> buildingType (grid ! nat r ! nat c) = Road)"

text \<open>
  In the words of the specification: a timer that is present and strictly positive means
  that the building of the tile is under construction.
\<close>

definition underConstruction :: "TileData \<Rightarrow> bool" where
  "underConstruction tile = (\<exists>t. constructionTimeLeft tile = Some t \<and> t > 0)"

text \<open>The count of the four orthogonal neighbours of \<open>(x, y)\<close> that are roads.\<close>

definition intersectionDegree :: "Grid \<Rightarrow> int \<Rightarrow> int \<Rightarrow> nat" where
  "intersectionDegree grid x y =
     length (filter (\<lambda>(r, c). roadAt grid r c)
       [(y, x - 1), (y, x + 1), (y - 1, x), (y + 1, x)])"

text \<open>
  In the words of the specification: the vertical axis only if a road exists above or
  below and none exists left or right, otherwise the horizontal axis.
\<close>

definition preferredAxis :: "Grid \<Rightarrow> int \<Rightarrow> int \<Rightarrow> Axis" where
  "preferredAxis grid x y =
     (if (roadAt grid (y - 1) x \<or> roadAt grid (y + 1) x)
         \<and> \<not> (roadAt grid y (x - 1) \<or> roadAt grid y (x + 1))
      then AxisZ else AxisX)"


text \<open>
  The argument of the sine in \<open>getHash\<close> is computed without overflow: both products
  and their sum stay inside the finite range.
\<close>

definition finiteArg :: "int \<Rightarrow> int \<Rightarrow> bool" where
  "finiteArg x y =
     (\<bar>real_of_int x * 12.9898\<bar> < overflowBound
      \<and> \<bar>real_of_int y * 78.233\<bar> < overflowBound
      \<and> \<bar>real_of_int x * 12.9898 + real_of_int y * 78.233\<bar> < overflowBound)"

text \<open>Two grids agree on which of the four neighbours of \<open>(x, y)\<close> are roads.\<close>

definition sameRoadNeighbors :: "Grid \<Rightarrow> Grid \<Rightarrow> int \<Rightarrow> int \<Rightarrow> bool" where
  "sameRoadNeighbors g g' x y =
     (roadAt g y (x - 1) = roadAt g' y (x - 1) \<and> roadAt g y (x + 1) = roadAt g' y (x + 1)
      \<and> roadAt g (y - 1) x = roadAt g' (y - 1) x \<and> roadAt g (y + 1) x = roadAt g' (y + 1) x)"

section \<open>Example grids\<close>

definition roadTile :: TileData where
  "roadTile = \<lparr>buildingType = Road, constructionTimeLeft = None\<rparr>"

definition emptyTile :: TileData where
  "emptyTile = \<lparr>buildingType = BNone, constructionTimeLeft = None\<rparr>"

definition crossGrid :: Grid where
  "crossGrid = [[emptyTile, roadTile, emptyTile],
                [roadTile, roadTile, roadTile],
                [emptyTile, roadTile, emptyTile]]"

definition streetGrid :: Grid where
  "streetGrid = [[emptyTile, emptyTile, emptyTile],
                 [roadTile, roadTile, roadTile],
                 [emptyTile, emptyTile, emptyTile]]"

definition avenueGrid :: Grid where
  "avenueGrid = [[emptyTile, roadTile, emptyTile],
                 [emptyTile, roadTile, emptyTile],
                 [emptyTile, roadTile, emptyTile]]"

definition laneGrid :: Grid where
  "laneGrid = [[roadTile, roadTile], [emptyTile, emptyTile]]"

definition laneGrid2 :: Grid where
  "laneGrid2 = [[roadTile, roadTile], [emptyTile, roadTile]]"

definition shopTile :: TileData where
  "shopTile = \<lparr>buildingType = Commercial, constructionTimeLeft = None\<rparr>"

definition clinicTile :: TileData where
  "clinicTile = \<lparr>buildingType = Hospital, constructionTimeLeft = Some 0\<rparr>"

definition houseSite :: TileData where
  "houseSite = \<lparr>buildingType = Residential, constructionTimeLeft = Some 3\<rparr>"

definition townGrid :: Grid where
  "townGrid = [[shopTile, emptyTile, emptyTile],
               [emptyTile, emptyTile, clinicTile],
               [emptyTile, emptyTile, emptyTile]]"

section \<open>The building catalog\<close>

text \<open>
  Claim C2, as stated, asks for the \<open>Road\<close> entry to have cost \<open>0\<close> (together with
  \<open>None\<close>) and a nonzero cost at once. In the catalog the cost of a road is \<open>10\<close>, so
  the first half fails.
\<close>

theorem BUILDINGS_Road_cost_not_zero:
  "\<not> (cost (BUILDINGS BNone) = 0 \<and> popGen (BUILDINGS BNone) = 0
       \<and> incomeGen (BUILDINGS BNone) = 0
       \<and> cost (BUILDINGS Road) = 0 \<and> popGen (BUILDINGS Road) = 0
       \<and> incomeGen (BUILDINGS Road) = 0)"
  by simp

lemma tickWith_BUILDINGS: "tickWith BUILDINGS grid treasury = tick grid treasury"
proof -
  have "tileIncomeWith BUILDINGS = tileIncome" and "tilePopWith BUILDINGS = tilePop"
    by (auto simp: tileIncomeWith_def tileIncome_def tilePopWith_def tilePop_def)
  then show ?thesis
    by (simp add: tickWith_def tick_def totalIncome_def totalPop_def)
qed

lemma tickWith_repriced: "tickWith (repriced c) grid treasury = tickWith BUILDINGS grid treasury"
proof -
  have "tileIncomeWith (repriced c) = tileIncomeWith BUILDINGS"
    and "tilePopWith (repriced c) = tilePopWith BUILDINGS"
    by (auto simp: tileIncomeWith_def tilePopWith_def repriced_def)
  then show ?thesis by (simp add: tickWith_def)
qed

lemma buildingContentWith_BUILDINGS: "buildingContentWith BUILDINGS = buildingContent"
  by (intro ext) (simp add: buildingContentWith_def buildingContent_def)

lemma buildingContentWith_repriced:
  "buildingContentWith (repriced c) = buildingContentWith BUILDINGS"
  by (intro ext) (simp add: buildingContentWith_def repriced_def)

lemma IsoMapWith_BUILDINGS: "IsoMapWith BUILDINGS grid = IsoMap grid"
  by (simp add: IsoMapWith_def IsoMap_def tileContent_def buildingContentWith_BUILDINGS)

lemma IsoMapWith_repriced: "IsoMapWith (repriced c) grid = IsoMapWith BUILDINGS grid"
  by (simp add: IsoMapWith_def buildingContentWith_repriced)

lemma place_Road:
  assumes "inBounds grid y x" and "buildingType (grid ! nat y ! nat x) = BNone"
  shows "place ticks uniq grid treasury x y Road =
     (if treasury < cost (BUILDINGS Road) then Inl InsufficientFunds
      else Inr (setTile grid x y \<lparr>buildingType = Road, constructionTimeLeft = None\<rparr>,
                treasury - cost (BUILDINGS Road)))"
  using assms by (simp add: place_def inBounds_def)

text \<open>
  Claim C2 (amended): the catalog is total over the ten building types, every type is
  mapped to the entry that carries that type; the \<open>None\<close> entry has cost, popGen and
  incomeGen \<open>0\<close>; the \<open>Road\<close> entry has popGen and incomeGen \<open>0\<close> and the nonzero
  cost \<open>10\<close>, which is used only at placement time: placing a road on an empty tile of
  the grid debits exactly that cost (and fails when the treasury is below it), while the
  tick and the map give the same result whatever the costs in the catalog are.
\<close>

theorem BUILDINGS_total_catalog:
  "btype (BUILDINGS t) = t
   \<and> t \<in> {BNone, Road, Residential, Commercial, Industrial, Park, Restaurant, Hotel,
           Hospital, Airport}
   \<and> cost (BUILDINGS BNone) = 0 \<and> popGen (BUILDINGS BNone) = 0
   \<and> incomeGen (BUILDINGS BNone) = 0
   \<and> popGen (BUILDINGS Road) = 0 \<and> incomeGen (BUILDINGS Road) = 0
   \<and> cost (BUILDINGS Road) = 10 \<and> cost (BUILDINGS Road) \<noteq> 0
   \<and> (inBounds grid y x \<and> buildingType (grid ! nat y ! nat x) = BNone \<longrightarrow>
        place ticks uniq grid treasury x y Road =
          (if treasury < 10 then Inl InsufficientFunds
           else Inr (setTile grid x y \<lparr>buildingType = Road, constructionTimeLeft = None\<rparr>,
                     treasury - 10)))
   \<and> tickWith BUILDINGS grid treasury = tick grid treasury
   \<and> tickWith (repriced c) grid treasury = tick grid treasury
   \<and> IsoMapWith BUILDINGS grid = IsoMap grid
   \<and> IsoMapWith (repriced c) grid = IsoMap grid"
proof -
  have catalog: "btype (BUILDINGS t) = t
   \<and> t \<in> {BNone, Road, Residential, Commercial, Industrial, Park, Restaurant, Hotel,
           Hospital, Airport}"
    by (cases t) simp_all
  have road: "inBounds grid y x \<and> buildingType (grid ! nat y ! nat x) = BNone \<longrightarrow>
        place ticks uniq grid treasury x y Road =
          (if treasury < 10 then Inl InsufficientFunds
           else Inr (setTile grid x y \<lparr>buildingType = Road, constructionTimeLeft = None\<rparr>,
                     treasury - 10))"
    using place_Road [of grid y x ticks uniq treasury] by simp
  show ?thesis
    using catalog road
    by (simp add: tickWith_BUILDINGS tickWith_repriced IsoMapWith_BUILDINGS IsoMapWith_repriced)
qed

theorem BUILDINGS_total_catalog_witness:
  "inBounds laneGrid 1 0 \<and> buildingType (laneGrid ! nat 1 ! nat 0) = BNone
   \<and> place 3 True laneGrid INITIAL_MONEY 0 1 Road
       = Inr ([[roadTile, roadTile], [roadTile, emptyTile]], 990)
   \<and> place 3 True laneGrid 9 0 1 Road = Inl InsufficientFunds
   \<and> cost (repriced (\<lambda>t. 0) Road) = 0
   \<and> tickWith (repriced (\<lambda>t. 0)) townGrid INITIAL_MONEY = tick townGrid INITIAL_MONEY
   \<and> IsoMapWith (repriced (\<lambda>t. 0)) townGrid = IsoMap townGrid"
proof -
  have b: "inBounds laneGrid 1 0" "buildingType (laneGrid ! nat 1 ! nat 0) = BNone"
    by (simp_all add: inBounds_def laneGrid_def emptyTile_def)
  have s: "setTile laneGrid 0 1 \<lparr>buildingType = Road, constructionTimeLeft = None\<rparr>
      = [[roadTile, roadTile], [roadTile, emptyTile]]"
    by (simp add: setTile_def laneGrid_def roadTile_def)
  show ?thesis
    using BUILDINGS_total_catalog [of Road laneGrid 1 0 3 True INITIAL_MONEY "\<lambda>t. 0"]
      BUILDINGS_total_catalog [of Road laneGrid 1 0 3 True 9 "\<lambda>t. 0"]
      BUILDINGS_total_catalog [of Road townGrid 1 0 3 True INITIAL_MONEY "\<lambda>t. 0"]
      b s
    by (simp add: INITIAL_MONEY_def repriced_def)
qed

section \<open>The hash\<close>

lemma overflowBound_large: "10 ^ 308 < overflowBound"
  by (simp add: overflowBound_def)

lemma overflowBound_pos: "0 < overflowBound"
  using overflowBound_large by (rule less_trans [rotated]) simp

lemma js_num_finite: "\<bar>r\<bar> < overflowBound \<Longrightarrow> js_num r = Num r"
  by (auto simp: js_num_def)

lemma js_num_cases:
  "js_num r = (if \<bar>r\<bar> < overflowBound then Num r else if 0 < r then PosInf else NegInf)"
  using overflowBound_pos by (auto simp: js_num_def)

lemma js_mul_int:
  assumes "1 \<le> c"
  shows "js_mul (js_int x) (Num c) = js_num (of_int x * c)"
proof -
  let ?r = "real_of_int x"
  from assms have c: "0 < c" by simp
  consider "overflowBound \<le> ?r" | "?r \<le> - overflowBound" | "\<bar>?r\<bar> < overflowBound"
    by linarith
  then show ?thesis
  proof cases
    case 1
    with overflowBound_pos have "0 \<le> ?r" by simp
    then have "?r * 1 \<le> ?r * c" using assms by (rule mult_left_mono [rotated])
    with 1 have "overflowBound \<le> ?r * c" by simp
    with 1 c show ?thesis by (simp add: js_int_def js_num_def)
  next
    case 2
    with overflowBound_pos have "?r \<le> 0" by simp
    then have "?r * c \<le> ?r * 1" using assms by (rule mult_left_mono_neg [rotated])
    with 2 have le: "?r * c \<le> - overflowBound" by simp
    with overflowBound_pos have "\<not> overflowBound \<le> ?r * c" by simp
    moreover from 2 overflowBound_pos have "\<not> overflowBound \<le> ?r" by simp
    ultimately show ?thesis using 2 le c by (simp add: js_int_def js_num_def)
  next
    case 3
    then show ?thesis by (simp add: js_int_def js_num_finite)
  qed
qed

lemma js_sin_not_finite: "\<forall>r. n \<noteq> Num r \<Longrightarrow> js_sin n = NaN"
  by (cases n) auto

lemma js_add_js_num:
  "js_add (js_num a) (js_num b) =
     (if \<bar>a\<bar> < overflowBound \<and> \<bar>b\<bar> < overflowBound then js_num (a + b)
      else if \<bar>a\<bar> < overflowBound then js_num b
      else if \<bar>b\<bar> < overflowBound then js_num a
      else if (0 < a) = (0 < b) then js_num a else NaN)"
  by (simp add: js_num_cases)

lemma hash_tail:
  "js_rem (js_abs (js_mul (js_sin (Num a)) (Num 43758.5453))) (Num 1)
   = Num (frac \<bar>sin a * 43758.5453\<bar>)"
proof -
  have "\<bar>sin a * 43758.5453\<bar> \<le> 1 * 43758.5453"
    unfolding abs_mult by (rule mult_mono) simp_all
  also have "\<dots> < overflowBound"
    using overflowBound_large by (rule less_trans [rotated]) simp
  finally have "js_num (sin a * 43758.5453) = Num (sin a * 43758.5453)"
    by (rule js_num_finite)
  then show ?thesis by (simp add: js_trunc_def frac_def)
qed

lemma hash_tail_NaN:
  "\<forall>r. n \<noteq> Num r \<Longrightarrow>
     js_rem (js_abs (js_mul (js_sin n) (Num 43758.5453))) (Num 1) = NaN"
  by (simp add: js_sin_not_finite)

lemma getHash_arg:
  "getHash x y =
     js_rem (js_abs (js_mul
        (js_sin (js_add (js_num (of_int x * 12.9898)) (js_num (of_int y * 78.233))))
        (Num 43758.5453))) (Num 1)"
  by (simp add: getHash_def js_mul_int)

lemma getHash_finite:
  assumes "finiteArg x y"
  shows "getHash x y = Num (frac \<bar>sin (of_int x * 12.9898 + of_int y * 78.233) * 43758.5453\<bar>)"
proof -
  from assms have "js_num (of_int x * 12.9898) = Num (of_int x * 12.9898)"
    and "js_num (of_int y * 78.233) = Num (of_int y * 78.233)"
    and "js_num (of_int x * 12.9898 + of_int y * 78.233)
      = Num (of_int x * 12.9898 + of_int y * 78.233)"
    unfolding finiteArg_def by (simp_all only: js_num_finite)
  then have "js_add (js_num (of_int x * 12.9898)) (js_num (of_int y * 78.233))
      = Num (of_int x * 12.9898 + of_int y * 78.233)"
    by (simp only: js_add.simps)
  then show ?thesis unfolding getHash_arg by (simp only: hash_tail)
qed

lemma getHash_overflow:
  assumes "\<not> finiteArg x y"
  shows "getHash x y = NaN"
proof -
  have "\<forall>r. js_add (js_num (of_int x * 12.9898)) (js_num (of_int y * 78.233)) \<noteq> Num r"
    using assms unfolding finiteArg_def js_add_js_num
    by (auto simp: js_num_cases split: if_splits)
  then show ?thesis unfolding getHash_arg by (rule hash_tail_NaN)
qed

lemma getHash_cases:
  "getHash x y =
     (if finiteArg x y
      then Num (frac \<bar>sin (of_int x * 12.9898 + of_int y * 78.233) * 43758.5453\<bar>)
      else NaN)"
  by (simp add: getHash_finite getHash_overflow)

lemma getHash_Num_range: "getHash x y = Num h \<Longrightarrow> 0 \<le> h \<and> h < 1"
  by (auto simp: getHash_cases frac_lt_1 split: if_splits)


lemma getHash_origin: "getHash 0 0 = Num 0"
  using overflowBound_pos by (simp add: getHash_cases finiteArg_def)

lemma finiteArg_huge: "\<not> finiteArg (10 ^ 308) 0"
proof -
  have "overflowBound < 2 ^ 1024" by (simp add: overflowBound_def)
  also have "\<dots> < (10 ^ 308 * 12.9898 :: real)" by simp
  finally show ?thesis by (simp add: finiteArg_def)
qed




section \<open>Cars\<close>

lemma js_mul_small:
  assumes "0 \<le> h" and "h < 1" and "0 \<le> k" and "k \<le> 1000"
  shows "js_mul (Num h) (Num k) = Num (h * k)"
proof -
  have "h * k \<le> 1 * 1000" using assms by (intro mult_mono) simp_all
  moreover have "0 \<le> h * k" using assms by simp
  moreover have "(1000 :: real) < 10 ^ 308" by simp
  ultimately have "\<bar>h * k\<bar> < overflowBound" using overflowBound_large by linarith
  then show ?thesis by (simp add: js_num_finite)
qed

lemma floor_scaled_range:
  assumes "0 \<le> h" and "h < 1" and "0 < (k::int)"
  shows "0 \<le> \<lfloor>h * of_int k\<rfloor> \<and> \<lfloor>h * of_int k\<rfloor> < k"
proof
  from assms show "0 \<le> \<lfloor>h * of_int k\<rfloor>" by simp
  from assms have "h * of_int k < of_int k" by simp
  then show "\<lfloor>h * of_int k\<rfloor> < k" by (simp add: floor_less_iff)
qed

lemma js_floor_scaled:
  assumes "0 \<le> h" and "h < 1" and "0 < k" and "k \<le> 1000"
  shows "js_floor (js_mul (Num h) (Num (of_int k))) = Num (of_int \<lfloor>h * of_int k\<rfloor>)"
proof -
  have "js_mul (Num h) (Num (of_int k)) = Num (h * of_int k)"
    using assms by (intro js_mul_small) simp_all
  then show ?thesis by simp
qed

lemma js_index_num_whole: "js_index_num xs (Num (of_int i)) = js_index xs i"
  by (simp add: js_index_num_def)

lemma carColors_index:
  assumes "0 \<le> i" and "i < 10"
  shows "js_index carColors i = Some (carColors ! nat i)"
  using assms by (simp add: js_index_def carColors_def)

lemma hash_colour:
  assumes "getHash x y = Num h"
  shows "js_floor (js_mul (getHash x y) (Num 10)) = Num (of_int \<lfloor>h * 10\<rfloor>)"
    and "0 \<le> \<lfloor>h * 10\<rfloor>" and "\<lfloor>h * 10\<rfloor> \<le> 9"
    and "js_index_num carColors (js_floor (js_mul (getHash x y) (Num 10)))
         = Some (carColors ! nat \<lfloor>h * 10\<rfloor>)"
proof -
  from assms have h: "0 \<le> h" "h < 1" using getHash_Num_range by auto
  have i: "0 \<le> \<lfloor>h * 10\<rfloor> \<and> \<lfloor>h * 10\<rfloor> < 10"
    using floor_scaled_range [OF h, of 10] by simp
  show f: "js_floor (js_mul (getHash x y) (Num 10)) = Num (of_int \<lfloor>h * 10\<rfloor>)"
    using js_floor_scaled [OF h, of 10] assms by simp
  from i show "0 \<le> \<lfloor>h * 10\<rfloor>" and "\<lfloor>h * 10\<rfloor> \<le> 9" by simp_all
  from i show "js_index_num carColors (js_floor (js_mul (getHash x y) (Num 10)))
         = Some (carColors ! nat \<lfloor>h * 10\<rfloor>)"
    unfolding f js_index_num_whole by (intro carColors_index) simp_all
qed

lemma rem_four_range:
  assumes "0 \<le> a"
  shows "\<exists>r. js_rem (Num a) (Num 4) = Num r \<and> 0 \<le> r \<and> r < 4"
proof -
  have eq: "a - 4 * of_int (js_trunc (a / 4)) = 4 * frac (a / 4)"
    using assms by (simp add: js_trunc_def frac_def)
  have "0 \<le> 4 * frac (a / 4) \<and> 4 * frac (a / 4) < 4"
    using frac_lt_1 [of "a / 4"] frac_ge_0 [of "a / 4"] by simp
  with eq show ?thesis by simp
qed

lemma carType_range:
  assumes "0 \<le> h" and "h < 1"
  shows "\<exists>k. carType (Num h) = Num (of_int k) \<and> 0 \<le> k \<and> k \<le> 3"
proof -
  have m: "js_mul (Num h) (Num 100) = Num (h * 100)"
    using assms by (intro js_mul_small) simp_all
  from assms have "0 \<le> h * 100" by simp
  from rem_four_range [OF this] obtain r
    where r: "js_rem (Num (h * 100)) (Num 4) = Num r" "0 \<le> r" "r < 4" by blast
  have "carType (Num h) = Num (of_int \<lfloor>r\<rfloor>)"
    unfolding carType_def m r(1) by simp
  moreover from r have "0 \<le> \<lfloor>r\<rfloor> \<and> \<lfloor>r\<rfloor> \<le> 3" by (simp add: floor_less_iff)
  ultimately show ?thesis by blast
qed

lemma carBody_single:
  assumes "carType seed = Num (of_int k)" and "0 \<le> k" and "k \<le> 3"
  shows "length (carBody seed) = 1"
proof -
  from assms have "k = 0 \<or> k = 1 \<or> k = 2 \<or> k = 3" by arith
  with assms(1) show ?thesis by (auto simp: carBody_def)
qed

lemma js_gt_Num: "js_gt n (Num c) \<longleftrightarrow> (\<exists>h. n = Num h \<and> c < h) \<or> n = PosInf"
  by (cases n) (simp_all add: js_gt_def)

lemma js_lt_Num: "js_lt n (Num c) \<longleftrightarrow> (\<exists>h. n = Num h \<and> h < c) \<or> n = NegInf"
  by (cases n) simp_all

lemma getHash_not_inf: "getHash x y \<noteq> PosInf" "getHash x y \<noteq> NegInf"
  by (simp_all add: getHash_cases)

lemma getHash_gt: "js_gt (getHash x y) (Num c) \<longleftrightarrow> (\<exists>h. getHash x y = Num h \<and> c < h)"
  by (simp add: js_gt_Num getHash_not_inf)

lemma getHash_lt: "js_lt (getHash x y) (Num c) \<longleftrightarrow> (\<exists>h. getHash x y = Num h \<and> h < c)"
  by (simp add: js_lt_Num getHash_not_inf)

text \<open>
  Claim C10: whenever the hash is a number it lies between \<open>0\<close> (included) and \<open>1\<close>
  (excluded), so the index \<open>floor (hash * 10)\<close> of the car colour lies between \<open>0\<close>
  and \<open>9\<close>, the colour array has \<open>10\<close> elements and the read is never \<open>undefined\<close>;
  the car type \<open>floor ((seed * 100) % 4)\<close> of a car seeded with the hash lies between
  \<open>0\<close> and \<open>3\<close>, and exactly one of the four variant branches is rendered. The hash
  is a number or \<open>NaN\<close>; a \<open>NaN\<close> hash fails the test \<open>hash > 0.4\<close> that guards the
  car, so no colour is read and no car is built from it.
\<close>

theorem car_indices_in_bounds:
  "length carColors = 10
   \<and> (getHash x y = Num h \<longrightarrow>
        js_floor (js_mul (getHash x y) (Num 10)) = Num (of_int \<lfloor>h * 10\<rfloor>)
        \<and> 0 \<le> \<lfloor>h * 10\<rfloor> \<and> \<lfloor>h * 10\<rfloor> \<le> 9
        \<and> js_index_num carColors (js_floor (js_mul (getHash x y) (Num 10)))
            = Some (carColors ! nat \<lfloor>h * 10\<rfloor>)
        \<and> (\<exists>k. carType (getHash x y) = Num (of_int k) \<and> 0 \<le> k \<and> k \<le> 3)
        \<and> length (carBody (getHash x y)) = 1)
   \<and> (getHash x y = NaN \<longrightarrow> \<not> js_gt (getHash x y) (Num 0.4))
   \<and> (getHash x y = NaN \<or> (\<exists>h. getHash x y = Num h))"
proof -
  have l: "length carColors = 10" by (simp add: carColors_def)
  have n: "getHash x y = Num h \<longrightarrow>
        js_floor (js_mul (getHash x y) (Num 10)) = Num (of_int \<lfloor>h * 10\<rfloor>)
        \<and> 0 \<le> \<lfloor>h * 10\<rfloor> \<and> \<lfloor>h * 10\<rfloor> \<le> 9
        \<and> js_index_num carColors (js_floor (js_mul (getHash x y) (Num 10)))
            = Some (carColors ! nat \<lfloor>h * 10\<rfloor>)
        \<and> (\<exists>k. carType (getHash x y) = Num (of_int k) \<and> 0 \<le> k \<and> k \<le> 3)
        \<and> length (carBody (getHash x y)) = 1"
  proof
    assume g: "getHash x y = Num h"
    then have h: "0 \<le> h" "h < 1" using getHash_Num_range by auto
    from carType_range [OF h] obtain k
      where k: "carType (Num h) = Num (of_int k)" "0 \<le> k" "k \<le> 3" by blast
    from carBody_single [OF k] have "length (carBody (Num h)) = 1" .
    with k hash_colour [OF g] g
    show "js_floor (js_mul (getHash x y) (Num 10)) = Num (of_int \<lfloor>h * 10\<rfloor>)
        \<and> 0 \<le> \<lfloor>h * 10\<rfloor> \<and> \<lfloor>h * 10\<rfloor> \<le> 9
        \<and> js_index_num carColors (js_floor (js_mul (getHash x y) (Num 10)))
            = Some (carColors ! nat \<lfloor>h * 10\<rfloor>)
        \<and> (\<exists>k. carType (getHash x y) = Num (of_int k) \<and> 0 \<le> k \<and> k \<le> 3)
        \<and> length (carBody (getHash x y)) = 1"
      by auto
  qed
  have a: "getHash x y = NaN \<longrightarrow> \<not> js_gt (getHash x y) (Num 0.4)"
    by (simp add: js_gt_def)
  have c: "getHash x y = NaN \<or> (\<exists>h. getHash x y = Num h)"
    by (simp add: getHash_cases)
  from l n a c show ?thesis by blast
qed

theorem car_indices_in_bounds_witness:
  "getHash 0 0 = Num 0
   \<and> js_index_num carColors (js_floor (js_mul (getHash 0 0) (Num 10))) = Some ''#ef4444''
   \<and> carType (getHash 0 0) = Num 0 \<and> carBody (getHash 0 0) = [Sedan]
   \<and> getHash (10 ^ 308) 0 = NaN \<and> \<not> js_gt (getHash (10 ^ 308) 0) (Num 0.4)"
proof -
  have z: "js_num 0 = Num 0" using overflowBound_pos by (simp add: js_num_def)
  have t: "carType (Num 0) = Num 0"
    by (simp add: carType_def z js_trunc_def)
  have n: "getHash (10 ^ 308) 0 = NaN" by (rule getHash_overflow [OF finiteArg_huge])
  show ?thesis
    using car_indices_in_bounds [of 0 0 0] car_indices_in_bounds [of "10 ^ 308" 0 0]
      getHash_origin t n z
    by (simp add: carColors_def carBody_def js_index_num_def js_index_def)
qed

section \<open>Variant and rotation of a building\<close>








section \<open>Road topology\<close>

lemma rectangular_row_length:
  "rectangular grid \<Longrightarrow> i < length grid \<Longrightarrow> length (grid ! i) = length (grid ! 0)"
  by (cases grid; cases i) (auto simp: rectangular_def list_all_length)

lemma isRoad_rectangular:
  assumes "rectangular grid"
  shows "isRoad grid r c = Inr (roadAt grid r c)"
proof (cases "0 \<le> r \<and> r < int (length grid)")
  case False
  then show ?thesis by (auto simp: isRoad_def roadAt_def inBounds_def)
next
  case True
  then have "nat r < length grid" by linarith
  then have len: "length (grid ! nat r) = length (grid ! 0)"
    by (rule rectangular_row_length [OF assms])
  from True have "0 < length grid" by auto
  with True len show ?thesis
    by (auto simp: isRoad_def roadAt_def inBounds_def js_index_def)
qed

lemma getRoadAxis_rectangular:
  assumes "rectangular grid"
  shows "getRoadAxis grid x y =
     Inr (if (roadAt grid (y - 1) x \<or> roadAt grid (y + 1) x)
             \<and> \<not> (roadAt grid y (x - 1) \<or> roadAt grid y (x + 1))
          then AxisZ else AxisX)"
  by (simp add: getRoadAxis_def orE_def bindE_def isRoad_rectangular [OF assms])

lemma neighbors_rectangular:
  assumes "rectangular grid"
  shows "neighbors grid x y = Inr (intersectionDegree grid x y)"
  by (simp add: neighbors_def bindE_def intersectionDegree_def isRoad_rectangular [OF assms])

lemma rectangular_examples:
  "rectangular crossGrid" "rectangular streetGrid" "rectangular avenueGrid"
  by (simp_all add: rectangular_def crossGrid_def streetGrid_def avenueGrid_def)

text \<open>
  A jagged grid is outside the data model: there the read \<open>grid[r][c]\<close> can be
  \<open>undefined\<close>, and \<open>isRoad\<close> throws.
\<close>

lemma isRoad_jagged: "isRoad [[roadTile, roadTile], [roadTile]] 1 1 = Inl TypeError"
  by (simp add: isRoad_def js_index_def)

text \<open>
  Claim C5: on a rectangular, non-empty grid \<open>isRoad\<close> returns a boolean for every pair
  of integers \<open>(row, col)\<close> and never throws; outside the bounds of the grid it returns
  false, inside it returns true exactly when the tile there has building type \<open>Road\<close>.
\<close>

theorem isRoad_total:
  assumes "rectangular grid" and "grid \<noteq> []"
  shows "(\<exists>b. isRoad grid r c = Inr b)
    \<and> (\<not> inBounds grid r c \<longrightarrow> isRoad grid r c = Inr False)
    \<and> (inBounds grid r c \<longrightarrow>
         isRoad grid r c = Inr (buildingType (grid ! nat r ! nat c) = Road))"
  using isRoad_rectangular [OF assms(1), of r c] by (simp add: roadAt_def)

theorem isRoad_total_witness:
  "rectangular crossGrid \<and> crossGrid \<noteq> []
   \<and> inBounds crossGrid 1 1 \<and> isRoad crossGrid 1 1 = Inr True
   \<and> inBounds crossGrid 0 0 \<and> isRoad crossGrid 0 0 = Inr False
   \<and> \<not> inBounds crossGrid 7 (- 2) \<and> isRoad crossGrid 7 (- 2) = Inr False"
proof -
  have r: "rectangular crossGrid" by (rule rectangular_examples)
  have n: "crossGrid \<noteq> []" by (simp add: crossGrid_def)
  have b: "inBounds crossGrid 1 1" "inBounds crossGrid 0 0" "\<not> inBounds crossGrid 7 (- 2)"
    by (simp_all add: inBounds_def crossGrid_def)
  have t: "buildingType (crossGrid ! nat 1 ! nat 1) = Road"
    "buildingType (crossGrid ! nat 0 ! nat 0) \<noteq> Road"
    by (simp_all add: crossGrid_def roadTile_def emptyTile_def)
  show ?thesis
    using isRoad_total [OF r n, of 1 1] isRoad_total [OF r n, of 0 0]
      isRoad_total [OF r n, of 7 "- 2"] r n b t by simp
qed

text \<open>
  Claim C4: on every grid of the data model (rectangular) and for every coordinate
  \<open>(x, y)\<close>, \<open>getRoadAxis\<close> returns the vertical axis \<open>z\<close> if and only if the tile
  above or the tile below is a road and neither the tile to the left nor the tile to the
  right is a road; in every other case (also the tie, and no road neighbour at all) it
  returns the horizontal axis \<open>x\<close>.
\<close>

theorem getRoadAxis_vertical_iff:
  assumes "rectangular grid"
  shows "(getRoadAxis grid x y = Inr AxisZ \<longleftrightarrow>
            (roadAt grid (y - 1) x \<or> roadAt grid (y + 1) x)
            \<and> \<not> roadAt grid y (x - 1) \<and> \<not> roadAt grid y (x + 1))
    \<and> (getRoadAxis grid x y = Inr AxisX \<longleftrightarrow>
            \<not> ((roadAt grid (y - 1) x \<or> roadAt grid (y + 1) x)
            \<and> \<not> roadAt grid y (x - 1) \<and> \<not> roadAt grid y (x + 1)))"
  by (simp add: getRoadAxis_rectangular [OF assms])

lemma roadAt_examples:
  "roadAt avenueGrid 0 1" "roadAt avenueGrid 2 1" "\<not> roadAt avenueGrid 1 0" "\<not> roadAt avenueGrid 1 2"
  "roadAt crossGrid 0 1" "roadAt crossGrid 2 1" "roadAt crossGrid 1 0" "roadAt crossGrid 1 2"
  "\<not> roadAt streetGrid 0 1" "\<not> roadAt streetGrid 2 1" "roadAt streetGrid 1 0" "roadAt streetGrid 1 2"
  "roadAt crossGrid 1 1" "roadAt streetGrid 1 1" "roadAt avenueGrid 1 1"
  by (simp_all add: roadAt_def inBounds_def crossGrid_def streetGrid_def avenueGrid_def
        roadTile_def emptyTile_def)

theorem getRoadAxis_vertical_iff_witness:
  "rectangular avenueGrid \<and> getRoadAxis avenueGrid 1 1 = Inr AxisZ
   \<and> rectangular crossGrid \<and> getRoadAxis crossGrid 1 1 = Inr AxisX
   \<and> rectangular streetGrid \<and> getRoadAxis streetGrid 1 1 = Inr AxisX
   \<and> getRoadAxis streetGrid 9 9 = Inr AxisX"
proof -
  have far: "\<not> roadAt streetGrid 8 9" "\<not> roadAt streetGrid 10 9"
    by (simp_all add: roadAt_def inBounds_def streetGrid_def)
  show ?thesis
    using getRoadAxis_vertical_iff [OF rectangular_examples(3), of 1 1]
      getRoadAxis_vertical_iff [OF rectangular_examples(1), of 1 1]
      getRoadAxis_vertical_iff [OF rectangular_examples(2), of 1 1]
      getRoadAxis_vertical_iff [OF rectangular_examples(2), of 9 9]
      rectangular_examples roadAt_examples far
    by simp
qed

text \<open>
  Claim C3: for every coordinate \<open>(x, y)\<close> inside a rectangular grid that holds a road
  tile, the number of neighbours counted by the map equals the count of the four
  orthogonal neighbours that are roads, and the tile is an intersection exactly when that
  count is at least \<open>3\<close>. With road neighbours on all four sides the degree is \<open>4\<close> and
  the tile is an intersection; with exactly two opposite road neighbours the degree is
  \<open>2\<close> and the tile is not an intersection.
\<close>

theorem isIntersection_degree:
  assumes "rectangular grid" and "inBounds grid y x"
    and "buildingType (grid ! nat y ! nat x) = Road"
  shows "neighbors grid x y = Inr (intersectionDegree grid x y)
    \<and> isIntersection grid (grid ! nat y ! nat x) x y = Inr (intersectionDegree grid x y \<ge> 3)
    \<and> (roadAt grid y (x - 1) \<and> roadAt grid y (x + 1)
         \<and> roadAt grid (y - 1) x \<and> roadAt grid (y + 1) x \<longrightarrow>
        neighbors grid x y = Inr 4
        \<and> isIntersection grid (grid ! nat y ! nat x) x y = Inr True)
    \<and> ((roadAt grid y (x - 1) \<and> roadAt grid y (x + 1)
          \<and> \<not> roadAt grid (y - 1) x \<and> \<not> roadAt grid (y + 1) x)
        \<or> (\<not> roadAt grid y (x - 1) \<and> \<not> roadAt grid y (x + 1)
          \<and> roadAt grid (y - 1) x \<and> roadAt grid (y + 1) x) \<longrightarrow>
        neighbors grid x y = Inr 2
        \<and> isIntersection grid (grid ! nat y ! nat x) x y = Inr False)"
  using assms(3)
  by (auto simp: isIntersection_def bindE_def neighbors_rectangular [OF assms(1)]
        intersectionDegree_def)

theorem isIntersection_degree_witness:
  "rectangular crossGrid \<and> inBounds crossGrid 1 1
   \<and> buildingType (crossGrid ! nat 1 ! nat 1) = Road
   \<and> neighbors crossGrid 1 1 = Inr 4
   \<and> isIntersection crossGrid (crossGrid ! nat 1 ! nat 1) 1 1 = Inr True
   \<and> rectangular streetGrid \<and> inBounds streetGrid 1 1
   \<and> buildingType (streetGrid ! nat 1 ! nat 1) = Road
   \<and> neighbors streetGrid 1 1 = Inr 2
   \<and> isIntersection streetGrid (streetGrid ! nat 1 ! nat 1) 1 1 = Inr False
   \<and> neighbors avenueGrid 1 1 = Inr 2
   \<and> isIntersection avenueGrid (avenueGrid ! nat 1 ! nat 1) 1 1 = Inr False"
proof -
  have b: "inBounds crossGrid 1 1" "inBounds streetGrid 1 1" "inBounds avenueGrid 1 1"
    by (simp_all add: inBounds_def crossGrid_def streetGrid_def avenueGrid_def)
  have t: "buildingType (crossGrid ! nat 1 ! nat 1) = Road"
    "buildingType (streetGrid ! nat 1 ! nat 1) = Road"
    "buildingType (avenueGrid ! nat 1 ! nat 1) = Road"
    by (simp_all add: crossGrid_def streetGrid_def avenueGrid_def roadTile_def)
  show ?thesis
    using isIntersection_degree [OF rectangular_examples(1) b(1) t(1)]
      isIntersection_degree [OF rectangular_examples(2) b(2) t(2)]
      isIntersection_degree [OF rectangular_examples(3) b(3) t(3)]
      rectangular_examples roadAt_examples b t
    by (simp add: intersectionDegree_def)
qed

section \<open>Ambient agents on roads\<close>

lemma getRoadAxis_preferredAxis:
  "rectangular grid \<Longrightarrow> getRoadAxis grid x y = Inr (preferredAxis grid x y)"
  by (simp add: getRoadAxis_rectangular preferredAxis_def)

lemma IsoMap_nth:
  assumes "y < length grid" and "x < length (grid ! y)"
  shows "IsoMap grid ! y ! x = tileContent grid (grid ! y ! x) (int x) (int y)"
  using assms by (simp add: IsoMap_def nth_enumerate_eq)

lemma IsoMap_at:
  assumes "inBounds grid y x"
  shows "IsoMap grid ! nat y ! nat x = tileContent grid (grid ! nat y ! nat x) x y"
proof -
  from assms have "nat y < length grid" and "nat x < length (grid ! nat y)"
    and "0 \<le> x" and "0 \<le> y"
    by (auto simp: inBounds_def)
  then show ?thesis using IsoMap_nth [of "nat y" grid "nat x"] by simp
qed

lemma roadContent_road:
  assumes "rectangular grid" and "buildingType tile = Road"
  shows "roadContent grid tile x y =
     Inr ((if 3 \<le> intersectionDegree grid x y then [TrafficLight]
           else if js_gt (getHash x y) (Num 0.4)
             then [Car (preferredAxis grid x y) (getHash x y)
                     (js_index_num carColors (js_floor (js_mul (getHash x y) (Num 10))))]
             else [])
          @ (if js_lt (getHash x y) (Num 0.2) then [Person (getHash x y)] else []))"
  using assms(2)
  by (simp add: roadContent_def isIntersection_def bindE_def Let_def
        neighbors_rectangular [OF assms(1)] getRoadAxis_preferredAxis [OF assms(1)])

lemma buildingContent_road: "buildingType tile = Road \<Longrightarrow> buildingContent tile x y = []"
  by (simp add: buildingContent_def Let_def)

lemma tileContent_road:
  assumes "rectangular grid" and "buildingType tile = Road"
    and "intersectionDegree grid x y < 3"
  shows "tileContent grid tile x y =
     Inr ((if js_gt (getHash x y) (Num 0.4)
             then [Car (preferredAxis grid x y) (getHash x y)
                     (js_index_num carColors (js_floor (js_mul (getHash x y) (Num 10))))]
             else [])
          @ (if js_lt (getHash x y) (Num 0.2) then [Person (getHash x y)] else []))"
  using assms(3)
  by (simp add: tileContent_def bindE_def roadContent_road [OF assms(1,2)]
        buildingContent_road [OF assms(2)])

lemma sameRoadNeighbors_degree:
  "sameRoadNeighbors g g' x y \<Longrightarrow> intersectionDegree g x y = intersectionDegree g' x y"
  by (simp add: sameRoadNeighbors_def intersectionDegree_def)

lemma sameRoadNeighbors_axis:
  "sameRoadNeighbors g g' x y \<Longrightarrow> preferredAxis g x y = preferredAxis g' x y"
  by (simp add: sameRoadNeighbors_def preferredAxis_def)

text \<open>
  Claim C9: what the map places on a road tile is a function of the grid and of the
  coordinates of the tile alone (the tile content reads no random source and no state
  kept between frames), so two renders of the same grid give the same agents. On a road
  tile that is not an intersection there is a car exactly when \<open>getHash x y > 0.4\<close>, with
  the hash as its seed, its colour read at index \<open>floor (hash * 10)\<close> (always a colour
  of the array) and its axis given by the road neighbours; there is a person exactly when
  \<open>getHash x y < 0.2\<close>. Any other grid with the same road neighbours around the tile
  shows the same agents there.
\<close>

theorem road_decoration_deterministic:
  assumes "rectangular grid" and "inBounds grid y x"
    and "buildingType (grid ! nat y ! nat x) = Road"
    and "intersectionDegree grid x y < 3"
  shows "\<exists>agents. IsoMap grid ! nat y ! nat x = Inr agents
     \<and> agents =
         (if js_gt (getHash x y) (Num 0.4)
          then [Car (preferredAxis grid x y) (getHash x y)
                  (js_index_num carColors (js_floor (js_mul (getHash x y) (Num 10))))]
          else [])
         @ (if js_lt (getHash x y) (Num 0.2) then [Person (getHash x y)] else [])
     \<and> ((\<exists>a s c. Car a s c \<in> set agents) \<longleftrightarrow> js_gt (getHash x y) (Num 0.4))
     \<and> (js_gt (getHash x y) (Num 0.4) \<longleftrightarrow> (\<exists>h. getHash x y = Num h \<and> 0.4 < h))
     \<and> (\<forall>a s c. Car a s c \<in> set agents \<longrightarrow>
           a = preferredAxis grid x y \<and> s = getHash x y
           \<and> (\<exists>h. getHash x y = Num h
                 \<and> c = Some (carColors ! nat \<lfloor>h * 10\<rfloor>)))
     \<and> ((\<exists>s. Person s \<in> set agents) \<longleftrightarrow> js_lt (getHash x y) (Num 0.2))
     \<and> (js_lt (getHash x y) (Num 0.2) \<longleftrightarrow> (\<exists>h. getHash x y = Num h \<and> h < 0.2))
     \<and> (\<forall>s. Person s \<in> set agents \<longrightarrow> s = getHash x y)
     \<and> (rectangular grid' \<and> inBounds grid' y x
          \<and> buildingType (grid' ! nat y ! nat x) = Road
          \<and> sameRoadNeighbors grid grid' x y \<longrightarrow>
        IsoMap grid' ! nat y ! nat x = Inr agents)"
proof -
  let ?agents = "(if js_gt (getHash x y) (Num 0.4)
             then [Car (preferredAxis grid x y) (getHash x y)
                     (js_index_num carColors (js_floor (js_mul (getHash x y) (Num 10))))]
             else [])
          @ (if js_lt (getHash x y) (Num 0.2) then [Person (getHash x y)] else [])"
  have here: "IsoMap grid ! nat y ! nat x = Inr ?agents"
    using tileContent_road [OF assms(1,3,4)] IsoMap_at [OF assms(2)] by simp
  have there: "IsoMap grid' ! nat y ! nat x = Inr ?agents"
    if r: "rectangular grid'" and b: "inBounds grid' y x"
      and t: "buildingType (grid' ! nat y ! nat x) = Road"
      and s: "sameRoadNeighbors grid grid' x y"
  proof -
    from s assms(4) have d: "intersectionDegree grid' x y < 3"
      by (simp add: sameRoadNeighbors_degree)
    show ?thesis
      using tileContent_road [OF r t d] IsoMap_at [OF b] sameRoadNeighbors_axis [OF s]
      by simp
  qed
  have colour: "\<exists>h. getHash x y = Num h
      \<and> js_index_num carColors (js_floor (js_mul (getHash x y) (Num 10)))
          = Some (carColors ! nat \<lfloor>h * 10\<rfloor>)"
    if "js_gt (getHash x y) (Num 0.4)"
  proof -
    from that obtain h where h: "getHash x y = Num h" unfolding getHash_gt by blast
    from hash_colour(4) [OF h] h show ?thesis by blast
  qed
  show ?thesis
  proof (intro exI conjI)
    show "IsoMap grid ! nat y ! nat x = Inr ?agents" by (rule here)
    show "rectangular grid' \<and> inBounds grid' y x
          \<and> buildingType (grid' ! nat y ! nat x) = Road
          \<and> sameRoadNeighbors grid grid' x y \<longrightarrow>
        IsoMap grid' ! nat y ! nat x = Inr ?agents"
      using there by blast
    show "js_gt (getHash x y) (Num 0.4) \<longleftrightarrow> (\<exists>h. getHash x y = Num h \<and> 0.4 < h)"
      by (rule getHash_gt)
    show "js_lt (getHash x y) (Num 0.2) \<longleftrightarrow> (\<exists>h. getHash x y = Num h \<and> h < 0.2)"
      by (rule getHash_lt)
    show "\<forall>a s c. Car a s c \<in> set ?agents \<longrightarrow>
           a = preferredAxis grid x y \<and> s = getHash x y
           \<and> (\<exists>h. getHash x y = Num h
                 \<and> c = Some (carColors ! nat \<lfloor>h * 10\<rfloor>))"
      using colour by (auto split: if_splits)
  qed auto
qed

lemma lane_facts:
  "rectangular laneGrid" "inBounds laneGrid 0 0"
  "buildingType (laneGrid ! nat 0 ! nat 0) = Road" "intersectionDegree laneGrid 0 0 < 3"
  "rectangular laneGrid2" "inBounds laneGrid2 0 0"
  "buildingType (laneGrid2 ! nat 0 ! nat 0) = Road" "sameRoadNeighbors laneGrid laneGrid2 0 0"
  "laneGrid \<noteq> laneGrid2"
  by (simp_all add: rectangular_def inBounds_def intersectionDegree_def roadAt_def
        sameRoadNeighbors_def laneGrid_def laneGrid2_def roadTile_def emptyTile_def)

theorem road_decoration_deterministic_witness:
  "rectangular laneGrid \<and> inBounds laneGrid 0 0
   \<and> buildingType (laneGrid ! nat 0 ! nat 0) = Road \<and> intersectionDegree laneGrid 0 0 < 3
   \<and> rectangular laneGrid2 \<and> inBounds laneGrid2 0 0
   \<and> buildingType (laneGrid2 ! nat 0 ! nat 0) = Road
   \<and> sameRoadNeighbors laneGrid laneGrid2 0 0 \<and> laneGrid \<noteq> laneGrid2
   \<and> IsoMap laneGrid ! nat 0 ! nat 0 = Inr [Person (Num 0)]
   \<and> IsoMap laneGrid2 ! nat 0 ! nat 0 = Inr [Person (Num 0)]"
  using road_decoration_deterministic [OF lane_facts(1-4), of laneGrid2] lane_facts
  by (auto simp: getHash_origin js_gt_def)

section \<open>Construction sites\<close>


lemma tileContent_building:
  assumes "buildingType tile \<noteq> Road"
  shows "tileContent grid tile x y = Inr (buildingContent tile x y)"
  using assms by (simp add: tileContent_def roadContent_def isIntersection_def bindE_def Let_def)

text \<open>
  Claim C7: a tile whose building type is neither \<open>None\<close> nor \<open>Road\<close> is shown as a
  construction site exactly when its \<open>constructionTimeLeft\<close> is present and strictly
  positive; the site shows that time, and the tile adds nothing to the income and the
  population summed by the tick. Otherwise (timer absent, \<open>0\<close> or not positive) the tile
  is shown as the finished building, with no construction site, it is active, and it adds
  the income and population of its catalog entry.
\<close>

theorem construction_gating:
  assumes "buildingType tile \<noteq> BNone" and "buildingType tile \<noteq> Road"
  shows "((\<exists>t. tileContent grid tile x y = Inr [ConstructionSite t]) \<longleftrightarrow>
            underConstruction tile)
    \<and> (underConstruction tile \<longrightarrow>
          (\<exists>t. constructionTimeLeft tile = Some t
             \<and> tileContent grid tile x y = Inr [ConstructionSite t])
          \<and> \<not> active tile \<and> tileIncome tile = 0 \<and> tilePop tile = 0)
    \<and> (\<not> underConstruction tile \<longrightarrow>
          (\<exists>rest. tileContent grid tile x y =
              Inr (ProceduralBuilding (buildingType tile)
                     (color (BUILDINGS (buildingType tile))) x y # rest)
             \<and> (\<forall>t. ConstructionSite t \<notin> set rest))
          \<and> active tile
          \<and> tileIncome tile = incomeGen (BUILDINGS (buildingType tile))
          \<and> tilePop tile = popGen (BUILDINGS (buildingType tile)))
    \<and> (constructionTimeLeft tile = None \<or> constructionTimeLeft tile = Some 0 \<longrightarrow>
          \<not> underConstruction tile)"
  using assms
  by (auto simp: underConstruction_def tileContent_building buildingContent_def Let_def
        tileIncome_def tilePop_def active_def split: option.splits)

lemma site_facts:
  "buildingType houseSite \<noteq> BNone" "buildingType houseSite \<noteq> Road"
  "underConstruction houseSite" "constructionTimeLeft houseSite = Some 3"
  "buildingType clinicTile \<noteq> BNone" "buildingType clinicTile \<noteq> Road"
  "\<not> underConstruction clinicTile" "constructionTimeLeft clinicTile = Some 0"
  "buildingType clinicTile = Hospital"
  by (simp_all add: houseSite_def clinicTile_def underConstruction_def)

theorem construction_gating_witness:
  "buildingType houseSite \<noteq> BNone \<and> buildingType houseSite \<noteq> Road
   \<and> underConstruction houseSite
   \<and> tileContent townGrid houseSite 2 2 = Inr [ConstructionSite 3]
   \<and> tileIncome houseSite = 0 \<and> tilePop houseSite = 0
   \<and> buildingType clinicTile \<noteq> BNone \<and> buildingType clinicTile \<noteq> Road
   \<and> constructionTimeLeft clinicTile = Some 0 \<and> \<not> underConstruction clinicTile
   \<and> (\<exists>rest. tileContent townGrid clinicTile 2 1 =
         Inr (ProceduralBuilding Hospital ''#f43f5e'' 2 1 # rest))
   \<and> active clinicTile \<and> tileIncome clinicTile = - 20 \<and> tilePop clinicTile = 10"
  using construction_gating [OF site_facts(1,2), of townGrid 2 2]
    construction_gating [OF site_facts(5,6), of townGrid 2 1] site_facts
  by auto

section \<open>The income of a tick\<close>

lemma countdown_buildingType: "buildingType (countdown tile) = buildingType tile"
  by (simp add: countdown_def split: option.splits)

lemma countdown_active: "active tile \<Longrightarrow> countdown tile = tile"
  by (simp add: countdown_def active_def split: option.splits)

lemma tileIncome_no_income:
  "incomeGen (BUILDINGS (buildingType tile)) = 0 \<Longrightarrow> tileIncome (countdown tile) = 0"
  by (simp add: tileIncome_def countdown_buildingType)

lemma sum_list_filter_zero:
  fixes f :: "'a \<Rightarrow> int"
  assumes "\<And>x. x \<in> set xs \<Longrightarrow> \<not> P x \<Longrightarrow> f x = 0"
  shows "sum_list (map f xs) = sum_list (map f (filter P xs))"
  using assms by (induction xs) auto

lemma totalIncome_countdown:
  "totalIncome (map (map countdown) grid)
   = sum_list (map (\<lambda>t. tileIncome (countdown t))
       (filter (\<lambda>t. incomeGen (BUILDINGS (buildingType t)) \<noteq> 0) (concat grid)))"
proof -
  have "totalIncome (map (map countdown) grid)
      = sum_list (map (\<lambda>t. tileIncome (countdown t)) (concat grid))"
    by (simp add: totalIncome_def map_concat comp_def)
  also have "\<dots> = sum_list (map (\<lambda>t. tileIncome (countdown t))
       (filter (\<lambda>t. incomeGen (BUILDINGS (buildingType t)) \<noteq> 0) (concat grid)))"
    by (rule sum_list_filter_zero) (simp add: tileIncome_no_income)
  finally show ?thesis .
qed

lemma tick_income_buildings:
  "tickIncome (tick grid treasury)
   = sum_mset (image_mset (\<lambda>t. tileIncome (countdown t))
       (mset (filter (\<lambda>t. incomeGen (BUILDINGS (buildingType t)) \<noteq> 0) (concat grid))))"
  by (simp add: tick_def Let_def totalIncome_countdown sum_mset_sum_list [symmetric]
        del: sum_mset_sum_list)

lemma tick_treasury:
  "newTreasury (tick grid treasury) = treasury + tickIncome (tick grid treasury)"
  by (simp add: tick_def Let_def)

text \<open>
  Claim C6: on a grid whose income-bearing tiles are exactly one active Commercial
  building and one active Hospital (every other tile is empty or holds a building type
  whose \<open>incomeGen\<close> is \<open>0\<close>), the income summed by one tick is \<open>-5\<close>: the catalog gives
  \<open>15\<close> to Commercial and \<open>-20\<close> to Hospital. The treasury changes by that amount.
\<close>

theorem tick_shop_and_hospital:
  assumes "mset (filter (\<lambda>t. incomeGen (BUILDINGS (buildingType t)) \<noteq> 0) (concat grid)) = {#shop, hospital#}"
    and "buildingType shop = Commercial" and "active shop"
    and "buildingType hospital = Hospital" and "active hospital"
  shows "tickIncome (tick grid treasury) = - 5
    \<and> incomeGen (BUILDINGS Commercial) = 15 \<and> incomeGen (BUILDINGS Hospital) = - 20
    \<and> newTreasury (tick grid treasury) = treasury - 5"
proof -
  have s: "tileIncome (countdown shop) = 15"
    using assms(2,3) by (simp add: countdown_active tileIncome_def)
  have h: "tileIncome (countdown hospital) = - 20"
    using assms(4,5) by (simp add: countdown_active tileIncome_def)
  have "tickIncome (tick grid treasury) = - 5"
    unfolding tick_income_buildings assms(1) using s h by simp
  then show ?thesis using tick_treasury [of grid treasury] by simp
qed

theorem tick_shop_and_hospital_witness:
  "mset (filter (\<lambda>t. incomeGen (BUILDINGS (buildingType t)) \<noteq> 0) (concat townGrid)) = {#shopTile, clinicTile#}
   \<and> buildingType shopTile = Commercial \<and> active shopTile
   \<and> buildingType clinicTile = Hospital \<and> active clinicTile
   \<and> tickIncome (tick townGrid INITIAL_MONEY) = - 5
   \<and> newTreasury (tick townGrid INITIAL_MONEY) = 995"
proof -
  have m: "mset (filter (\<lambda>t. incomeGen (BUILDINGS (buildingType t)) \<noteq> 0) (concat townGrid))
      = {#shopTile, clinicTile#}"
    by (simp add: townGrid_def shopTile_def clinicTile_def emptyTile_def)
  have f: "buildingType shopTile = Commercial" "active shopTile"
    "buildingType clinicTile = Hospital" "active clinicTile"
    by (simp_all add: shopTile_def clinicTile_def active_def)
  show ?thesis
    using tick_shop_and_hospital [OF m f, of INITIAL_MONEY] m f
    by (simp add: INITIAL_MONEY_def)
qed

end
